theory Spec2Isabelle
  imports Main "HOL-Library.Multiset"
begin

section \<open>Values shared by the services\<close>

text \<open>
  Dates are day ordinals and timestamps are ticks of the wall clock; both are read from
  the environment (\<open>datetime.now()\<close>), so every operation takes the value it reads as
  an argument. Python integers are unbounded, hence \<open>int\<close>. Console output
  (\<open>print\<close>) is not part of the model.
\<close>

type_synonym date = int
type_synonym timestamp = int

text \<open>
  Exceptions of class \<open>Exception\<close>: the two \<open>ValueError\<close>s that \<open>create_post\<close>
  raises itself, the \<open>TypeError\<close> of subscripting a value that is not a mapping, and
  \<open>Failure n\<close> for an exception raised by a collaborator (the document store or a
  callback), \<open>n\<close> telling one from another.
\<close>

datatype py_exception =
    ValueError_daily_limit
  | ValueError_empty_content
  | TypeError_not_subscriptable
  | Failure nat

section \<open>models/user.py\<close>

record user =
  user_id :: string
  username :: string
  email :: string
  password_hash :: string
  daily_posts :: int
  last_post_date :: "date option"
  scroll_time_today :: int
  last_scroll_reset :: date
  profile_image :: "string option"
  created_at :: timestamp

text \<open>\<open>User.reset_daily_limits\<close>; \<open>today\<close> is the date the method reads.\<close>

definition reset_daily_limits :: "date \<Rightarrow> user \<Rightarrow> user" where
  "reset_daily_limits today u =
     (let u1 = (if last_post_date u \<noteq> Some today then u\<lparr>daily_posts := 0\<rparr> else u)
      in if last_scroll_reset u1 \<noteq> today
         then u1\<lparr>scroll_time_today := 0, last_scroll_reset := today\<rparr>
         else u1)"

section \<open>The document store\<close>

text \<open>
  The store is a collaborator. The model keeps the calls issued to it, in order, and takes
  the reply to each call from the environment: the call raises, or it returns with a
  count of modified documents.
\<close>

record post_doc =
  doc_id :: string
  doc_post_id :: string
  doc_user_id :: string
  doc_username :: string
  doc_content :: string
  doc_purpose :: string
  doc_source :: string
  doc_timestamp :: timestamp
  doc_shares :: int
  doc_likes :: int
  doc_liked_by :: "string list"
  doc_image_path :: "string option"
  doc_comments :: "string list"

datatype db_call =
    Insert_post post_doc
  | Set_post_counters string int date
  | Set_scroll_counters string int date

datatype db_reply = Db_raises py_exception | Db_modified nat

type_synonym db = "db_call list"

section \<open>services/scroll\_service.py\<close>

definition DAILY_SCROLL_LIMIT :: int where
  "DAILY_SCROLL_LIMIT = 1800"

text \<open>
  \<open>_reset_daily_limits_if_needed\<close>: the counters are set before the store is called,
  so they stay reset when the call raises. The first component is the exception that
  leaves the method, if any.
\<close>

definition reset_daily_limits_if_needed ::
  "date \<Rightarrow> db_reply \<Rightarrow> user \<times> db \<Rightarrow> py_exception option \<times> user \<times> db" where
  "reset_daily_limits_if_needed today reply ud =
     (case ud of (u, d) \<Rightarrow>
        if last_scroll_reset u \<noteq> today then
          (let u1 = u\<lparr>scroll_time_today := 0, last_scroll_reset := today\<rparr>;
               d1 = d @ [Set_scroll_counters (user_id u1) 0 today]
           in case reply of
                Db_raises e \<Rightarrow> (Some e, u1, d1)
              | Db_modified n \<Rightarrow> (None, u1, d1))
        else (None, u, d))"

definition check_scroll_limit ::
  "date \<Rightarrow> db_reply \<Rightarrow> user \<times> db \<Rightarrow> bool \<times> user \<times> db" where
  "check_scroll_limit today reply ud =
     (case reset_daily_limits_if_needed today reply ud of
        (Some e, u1, d1) \<Rightarrow> (False, u1, d1)
      | (None, u1, d1) \<Rightarrow> (scroll_time_today u1 < DAILY_SCROLL_LIMIT, u1, d1))"

definition add_scroll_time ::
  "date \<Rightarrow> db_reply \<Rightarrow> db_reply \<Rightarrow> int \<Rightarrow> user \<times> db \<Rightarrow> bool \<times> user \<times> db" where
  "add_scroll_time today reset_reply update_reply seconds ud =
     (case reset_daily_limits_if_needed today reset_reply ud of
        (Some e, u1, d1) \<Rightarrow> (False, u1, d1)
      | (None, u1, d1) \<Rightarrow>
          (let u2 = u1\<lparr>scroll_time_today := scroll_time_today u1 + seconds\<rparr>;
               u3 = (if scroll_time_today u2 > DAILY_SCROLL_LIMIT
                     then u2\<lparr>scroll_time_today := DAILY_SCROLL_LIMIT\<rparr> else u2);
               d2 = d1 @ [Set_scroll_counters (user_id u3) (scroll_time_today u3)
                            (last_scroll_reset u3)]
           in case update_reply of
                Db_raises e \<Rightarrow> (False, u3, d2)
              | Db_modified n \<Rightarrow> (n > 0, u3, d2)))"

definition get_remaining_scroll_time ::
  "date \<Rightarrow> db_reply \<Rightarrow> user \<times> db \<Rightarrow> int \<times> user \<times> db" where
  "get_remaining_scroll_time today reply ud =
     (case reset_daily_limits_if_needed today reply ud of
        (Some e, u1, d1) \<Rightarrow> (0, u1, d1)
      | (None, u1, d1) \<Rightarrow>
          (let remaining = DAILY_SCROLL_LIMIT - scroll_time_today u1
           in (max 0 remaining, u1, d1)))"

definition is_scroll_warning_needed ::
  "date \<Rightarrow> db_reply \<Rightarrow> user \<times> db \<Rightarrow> bool \<times> user \<times> db" where
  "is_scroll_warning_needed today reply ud =
     (case get_remaining_scroll_time today reply ud of
        (remaining, u1, d1) \<Rightarrow> (remaining \<le> 300 \<and> remaining > 0, u1, d1))"

definition reset_user_scroll_time ::
  "date \<Rightarrow> db_reply \<Rightarrow> user \<times> db \<Rightarrow> bool \<times> user \<times> db" where
  "reset_user_scroll_time today reply ud =
     (case ud of (u, d) \<Rightarrow>
        (let u1 = u\<lparr>scroll_time_today := 0, last_scroll_reset := today\<rparr>;
             d1 = d @ [Set_scroll_counters (user_id u1) 0 (last_scroll_reset u1)]
         in case reply of
              Db_raises e \<Rightarrow> (False, u1, d1)
            | Db_modified n \<Rightarrow> (n > 0, u1, d1)))"

text \<open>
  \<open>str(n)\<close> and the format \<open>{n:02d}\<close> of an integer, for the two formatted fields of
  the statistics.
\<close>

definition digit_char :: "nat \<Rightarrow> char" where
  "digit_char n = char_of (48 + n)"

function digits_of :: "nat \<Rightarrow> string" where
  "digits_of n = (if n < 10 then [digit_char n]
                  else digits_of (n div 10) @ [digit_char (n mod 10)])"
  by pat_completeness auto
termination
  by (relation "measure id") auto

definition py_str :: "int \<Rightarrow> string" where
  "py_str n = (if n < 0 then CHR ''-'' # digits_of (nat (- n)) else digits_of (nat n))"

definition py_format_02d :: "int \<Rightarrow> string" where
  "py_format_02d n = (if 0 \<le> n \<and> n < 10 then CHR ''0'' # py_str n else py_str n)"

text \<open>
  The dictionary \<open>get_scroll_stats\<close> returns, without \<open>percentage_used\<close>, which is a
  floating-point number. \<open>None\<close> is the empty dictionary of the exception handler. The
  method reads the date twice, once itself and once in \<open>get_remaining_scroll_time\<close>.
\<close>

record scroll_stats =
  total_limit_minutes :: int
  used_time_seconds :: int
  used_time_minutes :: int
  used_time_formatted :: string
  remaining_time_seconds :: int
  remaining_time_minutes :: int
  remaining_time_formatted :: string
  is_limit_reached :: bool

definition get_scroll_stats ::
  "date \<Rightarrow> db_reply \<Rightarrow> date \<Rightarrow> db_reply \<Rightarrow> user \<times> db
     \<Rightarrow> scroll_stats option \<times> user \<times> db" where
  "get_scroll_stats today reply today2 reply2 ud =
     (case reset_daily_limits_if_needed today reply ud of
        (Some e, u1, d1) \<Rightarrow> (None, u1, d1)
      | (None, u1, d1) \<Rightarrow>
          (let used_minutes = scroll_time_today u1 div 60;
               used_seconds = scroll_time_today u1 mod 60
           in case get_remaining_scroll_time today2 reply2 (u1, d1) of
                (remaining_seconds, u2, d2) \<Rightarrow>
                  (let remaining_minutes = remaining_seconds div 60
                   in (Some \<lparr>total_limit_minutes = DAILY_SCROLL_LIMIT div 60,
                              used_time_seconds = scroll_time_today u2,
                              used_time_minutes = used_minutes,
                              used_time_formatted =
                                py_str used_minutes @ '':'' @ py_format_02d used_seconds,
                              remaining_time_seconds = remaining_seconds,
                              remaining_time_minutes = remaining_minutes,
                              remaining_time_formatted =
                                py_str remaining_minutes @ '':'' @
                                py_format_02d (remaining_seconds mod 60),
                              is_limit_reached =
                                (scroll_time_today u2 \<ge> DAILY_SCROLL_LIMIT)\<rparr>,
                       u2, d2))))"

text \<open>
  The operations of the service on one user, as one type, so that a property of every
  operation is one statement. \<open>Op_model_reset\<close> is \<open>User.reset_daily_limits\<close>.
  \<open>get_daily_usage_report\<close> formats the result of \<open>get_scroll_stats\<close> and acts on the
  user through that call only.
\<close>

datatype budget_op =
    Op_check date db_reply
  | Op_add date db_reply db_reply int
  | Op_remaining date db_reply
  | Op_stats date db_reply date db_reply
  | Op_admin_reset date db_reply
  | Op_warning date db_reply
  | Op_model_reset date

fun run_budget_op :: "budget_op \<Rightarrow> user \<times> db \<Rightarrow> user \<times> db" where
  "run_budget_op (Op_check t r) ud = snd (check_scroll_limit t r ud)"
| "run_budget_op (Op_add t r r2 n) ud = snd (add_scroll_time t r r2 n ud)"
| "run_budget_op (Op_remaining t r) ud = snd (get_remaining_scroll_time t r ud)"
| "run_budget_op (Op_stats t r t2 r2) ud = snd (get_scroll_stats t r t2 r2 ud)"
| "run_budget_op (Op_admin_reset t r) ud = snd (reset_user_scroll_time t r ud)"
| "run_budget_op (Op_warning t r) ud = snd (is_scroll_warning_needed t r ud)"
| "run_budget_op (Op_model_reset t) ud = (reset_daily_limits t (fst ud), snd ud)"

fun non_negative_op :: "budget_op \<Rightarrow> bool" where
  "non_negative_op (Op_add t r r2 n) = (0 \<le> n)"
| "non_negative_op _ = True"

definition budget_invariant :: "user \<Rightarrow> bool" where
  "budget_invariant u = (0 \<le> scroll_time_today u \<and> scroll_time_today u \<le> DAILY_SCROLL_LIMIT)"

section \<open>ui/reactive\_ui.py\<close>

text \<open>
  Values are opaque: \<open>PyVal v\<close> is any object other than \<open>None\<close>.
  \<open>PyChange key old new\<close> is the dictionary
  \<open>{'key': key, 'old_value': old, 'new_value': new}\<close> that \<open>set_state\<close> builds.
\<close>

datatype 'v pyval = PyNone | PyVal 'v | PyChange string "'v pyval" "'v pyval"

text \<open>
  A callback is a procedure of the display layer, \<open>External n\<close>, equal to another
  exactly when it has the same \<open>n\<close>, or the function object that \<open>bind_element\<close>
  creates for an element: each evaluation of its \<open>lambda\<close> is a new object, numbered by
  the counter \<open>next_function\<close>.
\<close>

datatype callback = External nat | Bound_updater nat string

record 'v event =
  ev_timestamp :: timestamp
  ev_event :: string
  ev_data :: "'v pyval"

text \<open>
  The fields of \<open>ReactiveUI\<close> that the operations below read or write, the counter of
  function objects, and the state \<open>world\<close> of the display layer. The lock is not
  modelled: operations run one at a time.
\<close>

record ('v, 'w) reactive_ui =
  observers :: "string \<rightharpoonup> callback list"
  state :: "string \<rightharpoonup> 'v pyval"
  event_history :: "'v event list"
  max_history :: int
  ui_elements :: "string \<rightharpoonup> string \<times> nat"
  next_function :: nat
  world :: 'w

text \<open>
  A call of a procedure ends in one of three ways: it returns, it raises an exception of
  class \<open>Exception\<close>, or it raises one that is outside that class, which a handler
  \<open>except Exception\<close> does not catch.
\<close>

datatype base_exception = KeyboardInterrupt | SystemExit

datatype outcome = Returned | Raised py_exception | Escaped base_exception

text \<open>
  While it runs, a procedure may call \<open>subscribe\<close> and \<open>unsubscribe\<close> of the bus
  for procedures of the display layer.
\<close>

datatype bus_request = Request_subscribe string nat | Request_unsubscribe string nat

text \<open>
  What the external procedures and objects do is given by the environment.
  \<open>run_callback n v s\<close> is the call of procedure \<open>n\<close> with argument \<open>v\<close> when the bus
  and the display layer are in \<open>s\<close>, which the procedure may read: it gives the display
  layer's state the procedure leaves (also when it raises), its calls of \<open>subscribe\<close>
  and \<open>unsubscribe\<close> in order, and how the call ends. Calls of \<open>emit\<close>,
  \<open>set_state\<close> or \<open>bind_element\<close> from inside a procedure are not modelled.
  \<open>subscript_new_value v\<close> is \<open>v['new_value']\<close> for an opaque object, and
  \<open>value_ne a b\<close> is the truth of \<open>a != b\<close> when one of the two is not \<open>None\<close>.
\<close>

record ('v, 'w) env =
  run_callback :: "nat \<Rightarrow> 'v pyval \<Rightarrow> ('v, 'w) reactive_ui \<Rightarrow> 'w \<times> bus_request list \<times> outcome"
  subscript_new_value :: "'v \<Rightarrow> py_exception + 'v pyval"
  value_ne :: "'v pyval \<Rightarrow> 'v pyval \<Rightarrow> bool"

definition ReactiveUI_init :: "'w \<Rightarrow> ('v, 'w) reactive_ui" where
  "ReactiveUI_init w =
     \<lparr>observers = Map.empty, state = Map.empty, event_history = [], max_history = 100,
      ui_elements = Map.empty, next_function = 0, world = w\<rparr>"

definition subscribe ::
  "string \<Rightarrow> callback \<Rightarrow> ('v, 'w) reactive_ui \<Rightarrow> ('v, 'w) reactive_ui" where
  "subscribe event_name cb s =
     (let cbs = (case observers s event_name of None \<Rightarrow> [] | Some l \<Rightarrow> l)
      in s\<lparr>observers :=
             (observers s)(event_name \<mapsto> (if cb \<notin> set cbs then cbs @ [cb] else cbs))\<rparr>)"

definition unsubscribe ::
  "string \<Rightarrow> callback \<Rightarrow> ('v, 'w) reactive_ui \<Rightarrow> ('v, 'w) reactive_ui" where
  "unsubscribe event_name cb s =
     (case observers s event_name of
        None \<Rightarrow> s
      | Some l \<Rightarrow>
          if cb \<in> set l then s\<lparr>observers := (observers s)(event_name \<mapsto> remove1 cb l)\<rparr>
          else s)"

fun apply_request :: "bus_request \<Rightarrow> ('v, 'w) reactive_ui \<Rightarrow> ('v, 'w) reactive_ui" where
  "apply_request (Request_subscribe event_name n) s = subscribe event_name (External n) s"
| "apply_request (Request_unsubscribe event_name n) s = unsubscribe event_name (External n) s"

definition apply_requests ::
  "bus_request list \<Rightarrow> ('v, 'w) reactive_ui \<Rightarrow> ('v, 'w) reactive_ui" where
  "apply_requests reqs s = fold apply_request reqs s"

definition add_to_history ::
  "timestamp \<Rightarrow> string \<Rightarrow> 'v pyval \<Rightarrow> ('v, 'w) reactive_ui \<Rightarrow> ('v, 'w) reactive_ui" where
  "add_to_history now event_name data s =
     (let event_record = \<lparr>ev_timestamp = now, ev_event = event_name, ev_data = data\<rparr>;
          h = event_history s @ [event_record]
      in s\<lparr>event_history := (if int (length h) > max_history s then tl h else h)\<rparr>)"

text \<open>
  One call of an external procedure inside \<open>try ... except Exception\<close>, as in
  \<open>emit\<close>, \<open>bind_element\<close> and \<open>_update_bound_element\<close>: the handler ends an
  exception of class \<open>Exception\<close>; any other leaves the \<open>try\<close> statement and is the
  first component of the result.
\<close>

definition try_callback ::
  "('v, 'w) env \<Rightarrow> nat \<Rightarrow> 'v pyval \<Rightarrow> ('v, 'w) reactive_ui
     \<Rightarrow> base_exception option \<times> ('v, 'w) reactive_ui" where
  "try_callback E cb v s =
     (case run_callback E cb v s of
        (w1, reqs, out) \<Rightarrow>
          (let s1 = apply_requests reqs (s\<lparr>world := w1\<rparr>)
           in case out of
                Returned \<Rightarrow> (None, s1)
              | Raised e \<Rightarrow> (None, s1)
              | Escaped b \<Rightarrow> (Some b, s1)))"

definition getitem_new_value :: "('v, 'w) env \<Rightarrow> 'v pyval \<Rightarrow> py_exception + 'v pyval" where
  "getitem_new_value E data =
     (case data of
        PyChange k old new \<Rightarrow> Inr new
      | PyNone \<Rightarrow> Inl TypeError_not_subscriptable
      | PyVal v \<Rightarrow> subscript_new_value E v)"

definition update_bound_element ::
  "('v, 'w) env \<Rightarrow> string \<Rightarrow> 'v pyval \<Rightarrow> ('v, 'w) reactive_ui
     \<Rightarrow> base_exception option \<times> ('v, 'w) reactive_ui" where
  "update_bound_element E element_id data s =
     (case ui_elements s element_id of
        None \<Rightarrow> (None, s)
      | Some (state_key, cb) \<Rightarrow>
          (case getitem_new_value E data of
             Inl e \<Rightarrow> (None, s)
           | Inr v \<Rightarrow> try_callback E cb v s))"

text \<open>
  The body of the loop of \<open>emit\<close>: \<open>callback(data)\<close> and its handler. The function
  object of a bound element runs \<open>_update_bound_element\<close>, which has its own handler.
\<close>

definition call_observer ::
  "('v, 'w) env \<Rightarrow> callback \<Rightarrow> 'v pyval \<Rightarrow> ('v, 'w) reactive_ui
     \<Rightarrow> base_exception option \<times> ('v, 'w) reactive_ui" where
  "call_observer E cb data s =
     (case cb of
        External n \<Rightarrow> try_callback E n data s
      | Bound_updater k element_id \<Rightarrow> update_bound_element E element_id data s)"

text \<open>The loop over the copied list: an exception that is not caught ends it.\<close>

fun deliver ::
  "('v, 'w) env \<Rightarrow> 'v pyval \<Rightarrow> callback list \<Rightarrow> ('v, 'w) reactive_ui
     \<Rightarrow> base_exception option \<times> ('v, 'w) reactive_ui" where
  "deliver E data [] s = (None, s)"
| "deliver E data (cb # cbs) s =
     (case call_observer E cb data s of
        (Some b, s1) \<Rightarrow> (Some b, s1)
      | (None, s1) \<Rightarrow> deliver E data cbs s1)"

definition emit ::
  "('v, 'w) env \<Rightarrow> timestamp \<Rightarrow> string \<Rightarrow> 'v pyval \<Rightarrow> ('v, 'w) reactive_ui
     \<Rightarrow> base_exception option \<times> ('v, 'w) reactive_ui" where
  "emit E now event_name data s =
     (let s1 = add_to_history now event_name data s;
          observers_copy = (case observers s1 event_name of Some l \<Rightarrow> l | None \<Rightarrow> [])
      in deliver E data observers_copy s1)"

text \<open>
  A sequence of calls of \<open>emit\<close>, each with the time it reads; a call that an exception
  leaves is followed by the next call all the same.
\<close>

fun emit_all ::
  "('v, 'w) env \<Rightarrow> (timestamp \<times> string \<times> 'v pyval) list \<Rightarrow> ('v, 'w) reactive_ui
     \<Rightarrow> ('v, 'w) reactive_ui" where
  "emit_all E [] s = s"
| "emit_all E ((now, event_name, data) # es) s =
     emit_all E es (snd (emit E now event_name data s))"

definition event_of :: "timestamp \<times> string \<times> 'v pyval \<Rightarrow> 'v event" where
  "event_of c = (case c of (now, event_name, data) \<Rightarrow>
     \<lparr>ev_timestamp = now, ev_event = event_name, ev_data = data\<rparr>)"



definition get_state :: "string \<Rightarrow> 'v pyval \<Rightarrow> ('v, 'w) reactive_ui \<Rightarrow> 'v pyval" where
  "get_state key default_value s = (case state s key of None \<Rightarrow> default_value | Some x \<Rightarrow> x)"

definition bind_element ::
  "('v, 'w) env \<Rightarrow> string \<Rightarrow> string \<Rightarrow> nat \<Rightarrow> ('v, 'w) reactive_ui
     \<Rightarrow> base_exception option \<times> ('v, 'w) reactive_ui" where
  "bind_element E element_id state_key update_callback s =
     (let s1 = s\<lparr>ui_elements := (ui_elements s)(element_id \<mapsto> (state_key, update_callback))\<rparr>;
          s2 = subscribe (''state_changed_'' @ state_key)
                 (Bound_updater (next_function s1) element_id)
                 (s1\<lparr>next_function := Suc (next_function s1)\<rparr>);
          current_value = get_state state_key PyNone s2
      in if current_value \<noteq> PyNone
         then try_callback E update_callback current_value s2
         else (None, s2))"

definition unbind_element :: "string \<Rightarrow> ('v, 'w) reactive_ui \<Rightarrow> ('v, 'w) reactive_ui" where
  "unbind_element element_id s =
     (case ui_elements s element_id of
        None \<Rightarrow> s
      | Some (state_key, cb) \<Rightarrow> s\<lparr>ui_elements := (ui_elements s)(element_id := None)\<rparr>)"

text \<open>
  \<open>history[:limit]\<close>: a negative limit counts from the end. The sort is stable and
  descending in the timestamp, as \<open>sort(key=..., reverse=True)\<close> is.
\<close>

definition py_prefix :: "int \<Rightarrow> 'a list \<Rightarrow> 'a list" where
  "py_prefix n xs = (if 0 \<le> n then take (nat n) xs else take (length xs - nat (- n)) xs)"

definition get_event_history ::
  "string option \<Rightarrow> int option \<Rightarrow> ('v, 'w) reactive_ui \<Rightarrow> 'v event list" where
  "get_event_history event_name limit s =
     (let history = event_history s;
          history1 = (case event_name of
                        None \<Rightarrow> history
                      | Some n \<Rightarrow> if n \<noteq> [] then filter (\<lambda>e. ev_event e = n) history
                                  else history);
          history2 = sort_key (\<lambda>e. - ev_timestamp e) history1
      in case limit of
           None \<Rightarrow> history2
         | Some k \<Rightarrow> if k \<noteq> 0 then py_prefix k history2 else history2)"

definition get_observers_count ::
  "string option \<Rightarrow> ('v, 'w) reactive_ui \<Rightarrow> (string \<rightharpoonup> nat)" where
  "get_observers_count event_name s =
     (case event_name of
        None \<Rightarrow> map_option length \<circ> observers s
      | Some n \<Rightarrow>
          if n \<noteq> []
          then [n \<mapsto> length (case observers s n of None \<Rightarrow> [] | Some l \<Rightarrow> l)]
          else map_option length \<circ> observers s)"

section \<open>services/post\_service.py\<close>

text \<open>
  \<open>str.strip\<close> on ASCII text. \<open>SecurityValidator.sanitize_input\<close> wraps the
  libraries \<open>html\<close> and \<open>re\<close>; \<open>create_post\<close> takes it as the function
  \<open>sanitize_input\<close>.
\<close>

definition py_isspace :: "char \<Rightarrow> bool" where
  "py_isspace c = (c \<in> set [CHR 0x09, CHR 0x0A, CHR 0x0B, CHR 0x0C, CHR 0x0D,
                              CHR 0x1C, CHR 0x1D, CHR 0x1E, CHR 0x1F, CHR 0x20])"

definition py_strip :: "string \<Rightarrow> string" where
  "py_strip t = rev (dropWhile py_isspace (rev (dropWhile py_isspace t)))"

text \<open>
  What one call of \<open>create_post\<close> reads from its environment: the identifier from
  \<open>uuid.uuid4()\<close>, the time the \<open>Post\<close> is built, the date read after the insertion,
  the time \<open>emit\<close> reads, and the store's replies to \<open>insert_one\<close> and \<open>update_one\<close>.
\<close>

record post_reads =
  read_uuid :: string
  read_post_time :: timestamp
  read_today :: date
  read_emit_time :: timestamp
  insert_reply :: db_reply
  update_reply :: db_reply

text \<open>
  The \<open>try\<close> block of \<open>create_post\<close>. The first component is how the block ends:
  at its last statement, by an exception of class \<open>Exception\<close> (its own
  \<open>ValueError\<close>s, or the store's), or by an exception that a subscriber of
  \<open>user_updated\<close> raised and \<open>emit\<close> did not catch. The others are the user, the
  store and the bus as the block leaves them. The \<open>Post\<close> constructor sanitises its
  three texts again, and \<open>to_dict\<close> gives the document inserted.
\<close>

definition create_post_body ::
  "(user, 'w) env \<Rightarrow> (string \<Rightarrow> string) \<Rightarrow> post_reads \<Rightarrow> user \<Rightarrow> string \<Rightarrow> string \<Rightarrow> string
     \<Rightarrow> string option \<Rightarrow> db \<times> (user, 'w) reactive_ui
     \<Rightarrow> outcome \<times> user \<times> db \<times> (user, 'w) reactive_ui" where
  "create_post_body E sanitize_input R u content purpose source image_path ds =
     (case ds of (d, s) \<Rightarrow>
        if daily_posts u \<ge> 3 then (Raised ValueError_daily_limit, u, d, s)
        else
          (let clean_content = sanitize_input content;
               clean_purpose = (if purpose \<noteq> [] then sanitize_input purpose else []);
               clean_source = (if source \<noteq> [] then sanitize_input source else [])
           in if py_strip clean_content = [] then (Raised ValueError_empty_content, u, d, s)
              else
                (let post_doc =
                       \<lparr>doc_id = read_uuid R, doc_post_id = read_uuid R,
                        doc_user_id = user_id u, doc_username = username u,
                        doc_content = sanitize_input clean_content,
                        doc_purpose = sanitize_input clean_purpose,
                        doc_source = sanitize_input clean_source,
                        doc_timestamp = read_post_time R, doc_shares = 0, doc_likes = 0,
                        doc_liked_by = [], doc_image_path = image_path,
                        doc_comments = []\<rparr>;
                     d1 = d @ [Insert_post post_doc]
                 in case insert_reply R of
                      Db_raises e \<Rightarrow> (Raised e, u, d1, s)
                    | Db_modified k \<Rightarrow>
                        (let today = read_today R;
                             u1 = (if last_post_date u \<noteq> Some today
                                   then u\<lparr>daily_posts := 1, last_post_date := Some today\<rparr>
                                   else u\<lparr>daily_posts := daily_posts u + 1\<rparr>);
                             d2 = d1 @ [Set_post_counters (user_id u1) (daily_posts u1) today]
                         in case update_reply R of
                              Db_raises e \<Rightarrow> (Raised e, u1, d2, s)
                            | Db_modified k2 \<Rightarrow>
                                (case emit E (read_emit_time R) ''user_updated'' (PyVal u1) s of
                                   (Some b, s1) \<Rightarrow> (Escaped b, u1, d2, s1)
                                 | (None, s1) \<Rightarrow> (Returned, u1, d2, s1))))))"

text \<open>
  \<open>create_post\<close>: \<open>True\<close> at the end of the block, \<open>False\<close> from the handler
  \<open>except Exception\<close>; an exception the handler does not catch leaves \<open>create_post\<close>
  (\<open>Inl\<close>).
\<close>

definition create_post ::
  "(user, 'w) env \<Rightarrow> (string \<Rightarrow> string) \<Rightarrow> post_reads \<Rightarrow> user \<Rightarrow> string \<Rightarrow> string \<Rightarrow> string
     \<Rightarrow> string option \<Rightarrow> db \<times> (user, 'w) reactive_ui
     \<Rightarrow> (base_exception + bool) \<times> user \<times> db \<times> (user, 'w) reactive_ui" where
  "create_post E sanitize_input R u content purpose source image_path ds =
     (case create_post_body E sanitize_input R u content purpose source image_path ds of
        (Raised e, r) \<Rightarrow> (Inr False, r)
      | (Returned, r) \<Rightarrow> (Inr True, r)
      | (Escaped b, r) \<Rightarrow> (Inl b, r))"

text \<open>Concrete values for the examples below.\<close>

definition quiet_env :: "('v, unit) env" where
  "quiet_env = \<lparr>run_callback = (\<lambda>n v s. ((), [], Returned)),
                 subscript_new_value = (\<lambda>v. Inl TypeError_not_subscriptable),
                 value_ne = (\<lambda>a b. a \<noteq> b)\<rparr>"

definition example_user :: user where
  "example_user =
     \<lparr>user_id = ''u1'', username = ''ana'', email = ''ana@example.org'',
      password_hash = ''x'', daily_posts = 0, last_post_date = Some 19000,
      scroll_time_today = 0, last_scroll_reset = 19000, profile_image = None,
      created_at = 0\<rparr>"

definition example_reads :: post_reads where
  "example_reads =
     \<lparr>read_uuid = ''p1'', read_post_time = 5, read_today = 19001, read_emit_time = 6,
      insert_reply = Db_modified 1, update_reply = Db_modified 1\<rparr>"





definition many_emissions :: "(timestamp \<times> string \<times> nat pyval) list" where
  "many_emissions = map (\<lambda>i. (int i, ''tick'', PyNone)) [0..<101]"

definition two_events :: "(nat, unit) reactive_ui" where
  "two_events =
     (ReactiveUI_init ())\<lparr>event_history :=
        [\<lparr>ev_timestamp = 1, ev_event = ''a'', ev_data = PyNone\<rparr>,
         \<lparr>ev_timestamp = 2, ev_event = ''b'', ev_data = PyNone\<rparr>]\<rparr>"

section \<open>The scroll budget\<close>

text \<open>
  C3. After \<open>add_scroll_time\<close> the counter is at most 1800, for every user and every
  argument. It is at least 0 when the argument is not negative and the counter was not
  negative or the day has changed. Every operation of the service, and the reset of the
  user model, keeps the counter between 0 and 1800 once it is there. Adding 1000 seconds
  twice on one day leaves 1800, from any counter that is not negative, and also when the
  first call rolls the day over and the store answers that call.
\<close>

theorem budget_clamp_invariant:
  "DAILY_SCROLL_LIMIT = 1800 \<and>
   scroll_time_today (fst (snd (add_scroll_time t ra rb n (u, d)))) \<le> DAILY_SCROLL_LIMIT \<and>
   (0 \<le> n \<and> (0 \<le> scroll_time_today u \<or> last_scroll_reset u \<noteq> t) \<longrightarrow>
      budget_invariant (fst (snd (add_scroll_time t ra rb n (u, d))))) \<and>
   (budget_invariant u \<and> non_negative_op op \<longrightarrow>
      budget_invariant (fst (run_budget_op op (u, d)))) \<and>
   ((last_scroll_reset u = t \<and> 0 \<le> scroll_time_today u) \<or>
    (last_scroll_reset u \<noteq> t \<and> (\<exists>k. ra = Db_modified k)) \<longrightarrow>
      scroll_time_today
        (fst (snd (add_scroll_time t rc rd 1000
                     (snd (add_scroll_time t ra rb 1000 (u, d)))))) = 1800)"
proof -
  have upper: "scroll_time_today (fst (snd (add_scroll_time t ra rb n (u, d)))) \<le> DAILY_SCROLL_LIMIT"
    by (auto simp: add_scroll_time_def reset_daily_limits_if_needed_def DAILY_SCROLL_LIMIT_def
        Let_def split: if_splits db_reply.splits)
  have lower: "0 \<le> n \<and> (0 \<le> scroll_time_today u \<or> last_scroll_reset u \<noteq> t) \<longrightarrow>
      0 \<le> scroll_time_today (fst (snd (add_scroll_time t ra rb n (u, d))))"
    by (auto simp: add_scroll_time_def reset_daily_limits_if_needed_def DAILY_SCROLL_LIMIT_def
        Let_def split: if_splits db_reply.splits)
  have every: "budget_invariant u \<and> non_negative_op op \<longrightarrow>
      budget_invariant (fst (run_budget_op op (u, d)))"
    by (cases op)
      (auto simp: budget_invariant_def add_scroll_time_def check_scroll_limit_def
        get_remaining_scroll_time_def get_scroll_stats_def reset_user_scroll_time_def
        is_scroll_warning_needed_def reset_daily_limits_def reset_daily_limits_if_needed_def
        DAILY_SCROLL_LIMIT_def Let_def split: if_splits db_reply.splits)
  have twice: "(last_scroll_reset u = t \<and> 0 \<le> scroll_time_today u) \<or>
      (last_scroll_reset u \<noteq> t \<and> (\<exists>k. ra = Db_modified k)) \<longrightarrow>
      scroll_time_today
        (fst (snd (add_scroll_time t rc rd 1000
                     (snd (add_scroll_time t ra rb 1000 (u, d)))))) = 1800"
    by (auto simp: add_scroll_time_def reset_daily_limits_if_needed_def DAILY_SCROLL_LIMIT_def
        Let_def split: if_splits db_reply.splits)
  from upper lower every twice show ?thesis
    by (simp add: budget_invariant_def DAILY_SCROLL_LIMIT_def)
qed

theorem budget_clamp_invariant_witness:
  "budget_invariant
     (fst (snd (add_scroll_time 19000 (Db_modified 1) (Db_raises (Failure 1)) 1000
                  (example_user, [])))) \<and>
   budget_invariant
     (fst (run_budget_op (Op_add 19001 (Db_raises (Failure 1)) (Db_modified 1) 1000)
             (example_user, []))) \<and>
   scroll_time_today
     (fst (snd (add_scroll_time 19000 (Db_modified 1) (Db_modified 0) 1000
                  (snd (add_scroll_time 19000 (Db_modified 1) (Db_raises (Failure 1)) 1000
                          (example_user, [])))))) = 1800"
proof -
  have h1: "0 \<le> (1000::int) \<and> (0 \<le> scroll_time_today example_user \<or> last_scroll_reset example_user \<noteq> 19000)"
    by (simp add: example_user_def)
  have h2: "budget_invariant example_user \<and>
      non_negative_op (Op_add 19001 (Db_raises (Failure 1)) (Db_modified 1) 1000)"
    by (simp add: example_user_def budget_invariant_def DAILY_SCROLL_LIMIT_def)
  have h3: "(last_scroll_reset example_user = 19000 \<and> 0 \<le> scroll_time_today example_user) \<or>
      (last_scroll_reset example_user \<noteq> 19000 \<and> (\<exists>k. Db_modified 1 = Db_modified k))"
    by (simp add: example_user_def)
  from h1 h2 h3 show ?thesis
    using budget_clamp_invariant [where t = 19000 and n = 1000 and u = example_user
      and d = "[]" and ra = "Db_modified 1" and rb = "Db_raises (Failure 1)"
      and op = "Op_add 19001 (Db_raises (Failure 1)) (Db_modified 1) 1000"
      and rc = "Db_modified 1" and rd = "Db_modified 0"]
    by blast
qed

text \<open>
  C4. \<open>is_scroll_warning_needed\<close> returns true exactly when, after the rollover it
  applies, between 1 and 300 seconds remain: the stored date is today and the counter is
  at least 1500 and below 1800. So it is false at 1800, true at 1500, true at 1501 (299
  seconds remain) and false at 1499.
\<close>

theorem warning_threshold:
  "(fst (is_scroll_warning_needed t r (u, d)) \<longleftrightarrow>
      0 < DAILY_SCROLL_LIMIT - scroll_time_today (fst (snd (is_scroll_warning_needed t r (u, d)))) \<and>
      DAILY_SCROLL_LIMIT - scroll_time_today (fst (snd (is_scroll_warning_needed t r (u, d))))
        \<le> 300) \<and>
   (fst (is_scroll_warning_needed t r (u, d)) \<longleftrightarrow>
      last_scroll_reset u = t \<and> 1500 \<le> scroll_time_today u \<and> scroll_time_today u < 1800)"
  by (auto simp: is_scroll_warning_needed_def get_remaining_scroll_time_def
      reset_daily_limits_if_needed_def DAILY_SCROLL_LIMIT_def Let_def
      split: if_splits db_reply.splits)

theorem warning_threshold_witness:
  "\<not> fst (is_scroll_warning_needed 19000 (Db_modified 1)
            (example_user\<lparr>scroll_time_today := 1800\<rparr>, [])) \<and>
   fst (is_scroll_warning_needed 19000 (Db_modified 1)
          (example_user\<lparr>scroll_time_today := 1500\<rparr>, [])) \<and>
   \<not> fst (is_scroll_warning_needed 19000 (Db_modified 1)
            (example_user\<lparr>scroll_time_today := 1499\<rparr>, [])) \<and>
   \<not> fst (is_scroll_warning_needed 19001 (Db_modified 1)
            (example_user\<lparr>scroll_time_today := 1500\<rparr>, []))"
  using warning_threshold [THEN conjunct2, of 19000 "Db_modified 1" "example_user\<lparr>scroll_time_today := 1800\<rparr>" "[]"]
    warning_threshold [THEN conjunct2, of 19000 "Db_modified 1" "example_user\<lparr>scroll_time_today := 1500\<rparr>" "[]"]
    warning_threshold [THEN conjunct2, of 19000 "Db_modified 1" "example_user\<lparr>scroll_time_today := 1499\<rparr>" "[]"]
    warning_threshold [THEN conjunct2, of 19001 "Db_modified 1" "example_user\<lparr>scroll_time_today := 1500\<rparr>" "[]"]
  by (simp add: example_user_def)

theorem warning_at_1501:
  "fst (is_scroll_warning_needed 19000 (Db_modified 1)
          (example_user\<lparr>scroll_time_today := 1501\<rparr>, [])) = True"
  by (simp add: is_scroll_warning_needed_def get_remaining_scroll_time_def
      reset_daily_limits_if_needed_def DAILY_SCROLL_LIMIT_def Let_def example_user_def)

section \<open>The post quota\<close>

text \<open>
  C1. A user at the limit whose stored date is before today is to post again after the
  rollover. \<open>create_post\<close> tests the count first and compares the date only after the
  insertion, so with a count of 3, a stored date of 19000 and the date 19001 the call
  returns \<open>False\<close> and leaves the user, the store and the bus as they were: the count
  stays 3.
\<close>

theorem create_post_rollover_rejected:
  "create_post quiet_env (\<lambda>t. t) example_reads
     (example_user\<lparr>daily_posts := 3\<rparr>) ''hola'' [] [] None ([], ReactiveUI_init ()) =
     (Inr False, example_user\<lparr>daily_posts := 3\<rparr>, [], ReactiveUI_init ()) \<and>
   last_post_date (example_user\<lparr>daily_posts := 3\<rparr>) = Some 19000 \<and>
   read_today example_reads = 19001"
  by (simp add: create_post_def create_post_body_def example_user_def example_reads_def)

text \<open>
  C2. For every user with a count of 3 or more, \<open>create_post\<close> returns \<open>False\<close> and
  changes neither the user nor the store nor the bus. It also returns \<open>False\<close> whenever
  the store raises: the result is one boolean, the same for the limit and for a failure of
  the store. When the count is below 3, the sanitised content is not blank and the store
  answers both calls, the user is updated and \<open>user_updated\<close> is emitted; the call
  returns \<open>True\<close> unless an exception of a subscriber leaves \<open>emit\<close>, which then
  leaves \<open>create_post\<close> as well.
\<close>

theorem create_post_at_limit:
  "(3 \<le> daily_posts u \<longrightarrow>
      create_post E sanitize_input R u content purpose source image_path (d, s)
        = (Inr False, u, d, s)) \<and>
   ((\<exists>e. insert_reply R = Db_raises e \<or> update_reply R = Db_raises e) \<longrightarrow>
      fst (create_post E sanitize_input R u content purpose source image_path (d, s))
        = Inr False) \<and>
   (daily_posts u < 3 \<and> py_strip (sanitize_input content) \<noteq> [] \<and>
    (\<exists>a. insert_reply R = Db_modified a) \<and> (\<exists>a. update_reply R = Db_modified a) \<longrightarrow>
      fst (create_post E sanitize_input R u content purpose source image_path (d, s))
        = (case fst (emit E (read_emit_time R) ''user_updated''
                       (PyVal (if last_post_date u \<noteq> Some (read_today R)
                               then u\<lparr>daily_posts := 1, last_post_date := Some (read_today R)\<rparr>
                               else u\<lparr>daily_posts := daily_posts u + 1\<rparr>)) s) of
             None \<Rightarrow> Inr True
           | Some b \<Rightarrow> Inl b))"
  by (auto simp: create_post_def create_post_body_def Let_def
      split: db_reply.splits prod.splits option.splits)

theorem create_post_at_limit_witness:
  "create_post quiet_env (\<lambda>t. t) example_reads
     (example_user\<lparr>daily_posts := 3, last_post_date := Some 19001\<rparr>) ''hola'' [] [] None
     ([], ReactiveUI_init ()) =
     (Inr False, example_user\<lparr>daily_posts := 3, last_post_date := Some 19001\<rparr>, [],
      ReactiveUI_init ()) \<and>
   fst (create_post quiet_env (\<lambda>t. t) (example_reads\<lparr>update_reply := Db_raises (Failure 2)\<rparr>)
          example_user ''hola'' [] [] None ([], ReactiveUI_init ())) = Inr False \<and>
   fst (create_post quiet_env (\<lambda>t. t) example_reads
          example_user ''hola'' [] [] None ([], ReactiveUI_init ())) = Inr True"
proof -
  have h1: "3 \<le> daily_posts (example_user\<lparr>daily_posts := 3, last_post_date := Some 19001\<rparr>)"
    by simp
  have h2: "\<exists>e. insert_reply (example_reads\<lparr>update_reply := Db_raises (Failure 2)\<rparr>)
        = Db_raises e \<or>
      update_reply (example_reads\<lparr>update_reply := Db_raises (Failure 2)\<rparr>) = Db_raises e"
    by auto
  have h3: "daily_posts example_user < 3 \<and> py_strip ((\<lambda>t. t) ''hola'') \<noteq> [] \<and>
      (\<exists>a. insert_reply example_reads = Db_modified a) \<and>
      (\<exists>a. update_reply example_reads = Db_modified a)"
    by (simp add: example_user_def example_reads_def py_strip_def py_isspace_def)
  have quiet: "fst (emit quiet_env t ''user_updated'' v (ReactiveUI_init ())) = None"
    for t and v :: "user pyval"
    by (simp add: emit_def add_to_history_def ReactiveUI_init_def Let_def)
  have c1: "create_post quiet_env (\<lambda>t. t) example_reads
     (example_user\<lparr>daily_posts := 3, last_post_date := Some 19001\<rparr>) ''hola'' [] [] None
     ([], ReactiveUI_init ()) =
     (Inr False, example_user\<lparr>daily_posts := 3, last_post_date := Some 19001\<rparr>, [],
      ReactiveUI_init ())"
    using h1 create_post_at_limit [where u = "example_user\<lparr>daily_posts := 3,
        last_post_date := Some 19001\<rparr>" and R = example_reads] by blast
  have c2: "fst (create_post quiet_env (\<lambda>t. t)
          (example_reads\<lparr>update_reply := Db_raises (Failure 2)\<rparr>)
          example_user ''hola'' [] [] None ([], ReactiveUI_init ())) = Inr False"
    using h2 create_post_at_limit [where u = example_user
        and R = "example_reads\<lparr>update_reply := Db_raises (Failure 2)\<rparr>"] by blast
  have c3: "fst (create_post quiet_env (\<lambda>t. t) example_reads
          example_user ''hola'' [] [] None ([], ReactiveUI_init ())) = Inr True"
    using h3 create_post_at_limit [where u = example_user and R = example_reads
        and sanitize_input = "\<lambda>t. t" and content = "''hola''" and E = quiet_env
        and s = "ReactiveUI_init ()" and purpose = "[]" and source = "[]"
        and image_path = None and d = "[]"]
    by (simp add: quiet)
  from c1 c2 c3 show ?thesis by blast
qed

theorem create_post_failures_collapse:
  "fst (create_post_body quiet_env (\<lambda>t. t) example_reads
          (example_user\<lparr>daily_posts := 3, last_post_date := Some 19001\<rparr>) ''hola'' [] [] None
          ([], ReactiveUI_init ()))
     = Raised ValueError_daily_limit \<and>
   fst (create_post_body quiet_env (\<lambda>t. t)
          (example_reads\<lparr>insert_reply := Db_raises (Failure 1)\<rparr>)
          example_user ''hola'' [] [] None ([], ReactiveUI_init ()))
     = Raised (Failure 1) \<and>
   fst (create_post quiet_env (\<lambda>t. t) example_reads
          (example_user\<lparr>daily_posts := 3, last_post_date := Some 19001\<rparr>) ''hola'' [] [] None
          ([], ReactiveUI_init ()))
     = fst (create_post quiet_env (\<lambda>t. t)
          (example_reads\<lparr>insert_reply := Db_raises (Failure 1)\<rparr>)
          example_user ''hola'' [] [] None ([], ReactiveUI_init ()))"
  by (simp add: create_post_def create_post_body_def example_user_def example_reads_def
      py_strip_def py_isspace_def)

section \<open>The event bus\<close>

text \<open>
  What a callback can change is the display layer's state and, through \<open>subscribe\<close>
  and \<open>unsubscribe\<close>, the table of observers; the other fields of the bus stay as they
  are during a delivery.
\<close>

lemma subscribe_frame:
  "state (subscribe n cb s) = state s"
  "event_history (subscribe n cb s) = event_history s"
  "max_history (subscribe n cb s) = max_history s"
  "ui_elements (subscribe n cb s) = ui_elements s"
  "next_function (subscribe n cb s) = next_function s"
  "world (subscribe n cb s) = world s"
  by (simp_all add: subscribe_def Let_def)

lemma unsubscribe_frame:
  "state (unsubscribe n cb s) = state s"
  "event_history (unsubscribe n cb s) = event_history s"
  "max_history (unsubscribe n cb s) = max_history s"
  "ui_elements (unsubscribe n cb s) = ui_elements s"
  "next_function (unsubscribe n cb s) = next_function s"
  "world (unsubscribe n cb s) = world s"
  by (simp_all add: unsubscribe_def split: option.splits)

lemma apply_request_frame:
  "state (apply_request r s) = state s"
  "event_history (apply_request r s) = event_history s"
  "max_history (apply_request r s) = max_history s"
  "ui_elements (apply_request r s) = ui_elements s"
  "next_function (apply_request r s) = next_function s"
  "world (apply_request r s) = world s"
  by (cases r; simp add: subscribe_frame unsubscribe_frame)+

lemma apply_requests_frame:
  "state (apply_requests reqs s) = state s"
  "event_history (apply_requests reqs s) = event_history s"
  "max_history (apply_requests reqs s) = max_history s"
  "ui_elements (apply_requests reqs s) = ui_elements s"
  "next_function (apply_requests reqs s) = next_function s"
  "world (apply_requests reqs s) = world s"
  unfolding apply_requests_def
  by (induction reqs arbitrary: s; simp add: apply_request_frame)+

lemma try_callback_frame:
  "state (snd (try_callback E cb v s)) = state s"
  "event_history (snd (try_callback E cb v s)) = event_history s"
  "max_history (snd (try_callback E cb v s)) = max_history s"
  "ui_elements (snd (try_callback E cb v s)) = ui_elements s"
  "next_function (snd (try_callback E cb v s)) = next_function s"
  by (simp_all add: try_callback_def Let_def apply_requests_frame
      split: prod.splits outcome.splits)

lemma update_bound_element_frame:
  "state (snd (update_bound_element E i v s)) = state s"
  "event_history (snd (update_bound_element E i v s)) = event_history s"
  "max_history (snd (update_bound_element E i v s)) = max_history s"
  "ui_elements (snd (update_bound_element E i v s)) = ui_elements s"
  "next_function (snd (update_bound_element E i v s)) = next_function s"
  by (simp_all add: update_bound_element_def try_callback_frame
      split: prod.splits option.splits sum.splits)

lemma call_observer_frame:
  "state (snd (call_observer E cb v s)) = state s"
  "event_history (snd (call_observer E cb v s)) = event_history s"
  "max_history (snd (call_observer E cb v s)) = max_history s"
  "ui_elements (snd (call_observer E cb v s)) = ui_elements s"
  "next_function (snd (call_observer E cb v s)) = next_function s"
  by (simp_all add: call_observer_def update_bound_element_frame try_callback_frame
      split: callback.splits)

lemma deliver_frame_all:
  "state (snd (deliver E v cbs s)) = state s \<and>
   event_history (snd (deliver E v cbs s)) = event_history s \<and>
   max_history (snd (deliver E v cbs s)) = max_history s \<and>
   ui_elements (snd (deliver E v cbs s)) = ui_elements s \<and>
   next_function (snd (deliver E v cbs s)) = next_function s"
proof (induction cbs arbitrary: s)
  case Nil
  show ?case by simp
next
  case (Cons cb cbs)
  obtain r s1 where c: "call_observer E cb v s = (r, s1)" by (cases "call_observer E cb v s")
  have f: "state s1 = state s" "event_history s1 = event_history s"
    "max_history s1 = max_history s" "ui_elements s1 = ui_elements s"
    "next_function s1 = next_function s"
    using call_observer_frame[of E cb v s] by (simp_all add: c)
  show ?case
  proof (cases r)
    case None
    then show ?thesis using Cons.IH[of s1] by (simp add: c f)
  next
    case (Some b)
    then show ?thesis by (simp add: c f)
  qed
qed

lemma deliver_frame:
  "state (snd (deliver E v cbs s)) = state s"
  "event_history (snd (deliver E v cbs s)) = event_history s"
  "max_history (snd (deliver E v cbs s)) = max_history s"
  "ui_elements (snd (deliver E v cbs s)) = ui_elements s"
  "next_function (snd (deliver E v cbs s)) = next_function s"
  using deliver_frame_all[of E v cbs s] by simp_all

lemma emit_frame:
  "state (snd (emit E now n v s)) = state s"
  "max_history (snd (emit E now n v s)) = max_history s"
  "ui_elements (snd (emit E now n v s)) = ui_elements s"
  "next_function (snd (emit E now n v s)) = next_function s"
  by (simp_all add: emit_def Let_def deliver_frame add_to_history_def)

lemma emit_history:
  "event_history (snd (emit E now n v s)) = event_history (add_to_history now n v s)"
  by (simp add: emit_def Let_def deliver_frame)




text \<open>One emission on a history within its capacity of 100.\<close>

lemma emit_history_100:
  assumes "max_history s = 100" "length (event_history s) \<le> 100"
  shows "event_history (snd (emit E now n v s)) =
           drop (Suc (length (event_history s)) - 100)
             (event_history s @ [\<lparr>ev_timestamp = now, ev_event = n, ev_data = v\<rparr>])"
proof (cases "length (event_history s) = 100")
  case True
  then have "event_history s \<noteq> []" by auto
  then obtain x xs where "event_history s = x # xs" by (cases "event_history s") auto
  with True assms show ?thesis by (simp add: emit_history add_to_history_def Let_def)
next
  case False
  with assms show ?thesis by (simp add: emit_history add_to_history_def Let_def)
qed

lemma emit_all_history:
  "max_history s = 100 \<Longrightarrow> length (event_history s) \<le> 100 \<Longrightarrow>
     event_history (emit_all E es s) =
       drop (length (event_history s) + length es - 100) (event_history s @ map event_of es)
     \<and> max_history (emit_all E es s) = 100"
proof (induction es arbitrary: s)
  case Nil
  then show ?case by simp
next
  case (Cons c es)
  obtain now n v where c: "c = (now, n, v)" by (cases c) auto
  let ?s1 = "snd (emit E now n v s)"
  have h1: "event_history ?s1 =
      drop (Suc (length (event_history s)) - 100) (event_history s @ [event_of c])"
    using emit_history_100[OF Cons.prems] by (simp add: c event_of_def)
  have m1: "max_history ?s1 = 100" using Cons.prems by (simp add: emit_frame)
  have l1: "length (event_history ?s1) \<le> 100" using Cons.prems by (simp add: h1)
  have "event_history (emit_all E es ?s1) =
      drop (length (event_history ?s1) + length es - 100) (event_history ?s1 @ map event_of es)"
    using Cons.IH[OF m1 l1] by simp
  also have "\<dots> = drop (length (event_history s) + length (c # es) - 100)
      (event_history s @ map event_of (c # es))"
  proof (cases "length (event_history s) = 100")
    case True
    then show ?thesis by (simp add: h1)
  next
    case False
    with Cons.prems(2) have "length (event_history s) < 100" by simp
    then show ?thesis by (simp add: h1)
  qed
  finally show ?case using Cons.IH[OF m1 l1] by (simp add: c)
qed

lemma init_fields:
  "max_history (ReactiveUI_init w) = 100" "event_history (ReactiveUI_init w) = []"
  "observers (ReactiveUI_init w) = Map.empty" "state (ReactiveUI_init w) = Map.empty"
  "ui_elements (ReactiveUI_init w) = Map.empty" "next_function (ReactiveUI_init w) = 0"
  "world (ReactiveUI_init w) = w"
  by (simp_all add: ReactiveUI_init_def)

lemma get_all_mset: "mset (get_event_history None None s) = mset (event_history s)"
  by (simp add: get_event_history_def)

text \<open>A function object of a bound element stays subscribed whatever the procedures request.\<close>

lemma apply_request_keeps_updater:
  "Bound_updater i e \<in> set (case observers s n of None \<Rightarrow> [] | Some l \<Rightarrow> l) \<Longrightarrow>
     Bound_updater i e \<in> set (case observers (apply_request r s) n of None \<Rightarrow> [] | Some l \<Rightarrow> l)"
  by (cases r) (auto simp: subscribe_def unsubscribe_def Let_def split: option.splits if_splits)

lemma apply_requests_keeps_updater:
  "Bound_updater i e \<in> set (case observers s n of None \<Rightarrow> [] | Some l \<Rightarrow> l) \<Longrightarrow>
     Bound_updater i e \<in> set (case observers (apply_requests reqs s) n of None \<Rightarrow> [] | Some l \<Rightarrow> l)"
  unfolding apply_requests_def
proof (induction reqs arbitrary: s)
  case Nil
  then show ?case by simp
next
  case (Cons r reqs)
  then show ?case using apply_request_keeps_updater[of i e s n r] by simp
qed

lemma try_callback_keeps_updater:
  "Bound_updater i e \<in> set (case observers s n of None \<Rightarrow> [] | Some l \<Rightarrow> l) \<Longrightarrow>
     Bound_updater i e \<in>
       set (case observers (snd (try_callback E cb v s)) n of None \<Rightarrow> [] | Some l \<Rightarrow> l)"
  using apply_requests_keeps_updater[of i e "s\<lparr>world := fst (run_callback E cb v s)\<rparr>" n]
  by (auto simp: try_callback_def Let_def split: prod.splits outcome.splits)

text \<open>
  C5. Every \<open>emit\<close> appends one record to the history, whether or not the event has
  subscribers, and drops the oldest record when the history would exceed 100: on a new bus
  the history after any sequence of emissions is the last 100 records emitted, in order,
  so its length is the smaller of their number and 100. After 101 emissions or more,
  \<open>get_event_history()\<close> returns those records reordered; the record of the first
  emission is not among them unless a later emission has an equal record.
\<close>

theorem emit_history_capacity:
  "length (event_history (emit_all E es (ReactiveUI_init w))) = min (length es) 100 \<and>
   event_history (emit_all E es (ReactiveUI_init w)) = drop (length es - 100) (map event_of es) \<and>
   (max_history s = 100 \<and> length (event_history s) \<le> 100 \<longrightarrow>
      event_history (snd (emit E now n v s)) =
        drop (Suc (length (event_history s)) - 100) (event_history s @ [event_of (now, n, v)]) \<and>
      length (event_history (snd (emit E now n v s))) \<le> 100 \<and>
      (observers s n = None \<longrightarrow> emit E now n v s = (None, add_to_history now n v s))) \<and>
   (101 \<le> length es \<longrightarrow>
      mset (get_event_history None None (emit_all E es (ReactiveUI_init w))) =
        mset (drop (length es - 100) (map event_of es)) \<and>
      (event_of (hd es) \<notin> set (map event_of (tl es)) \<longrightarrow>
         event_of (hd es) \<notin>
           set (get_event_history None None (emit_all E es (ReactiveUI_init w)))))"
proof -
  let ?s0 = "ReactiveUI_init w :: ('a, 'b) reactive_ui"
  have all: "event_history (emit_all E es ?s0) = drop (length es - 100) (map event_of es)"
    using emit_all_history[of ?s0 E es] by (simp add: init_fields)
  have len: "length (event_history (emit_all E es ?s0)) = min (length es) 100"
    by (simp add: all)
  have one: "max_history s = 100 \<and> length (event_history s) \<le> 100 \<longrightarrow>
      event_history (snd (emit E now n v s)) =
        drop (Suc (length (event_history s)) - 100) (event_history s @ [event_of (now, n, v)]) \<and>
      length (event_history (snd (emit E now n v s))) \<le> 100 \<and>
      (observers s n = None \<longrightarrow> emit E now n v s = (None, add_to_history now n v s))"
  proof (intro impI, elim conjE)
    assume a: "max_history s = 100" "length (event_history s) \<le> 100"
    have h: "event_history (snd (emit E now n v s)) =
        drop (Suc (length (event_history s)) - 100) (event_history s @ [event_of (now, n, v)])"
      using emit_history_100[OF a] by (simp add: event_of_def)
    have l: "length (event_history (snd (emit E now n v s))) \<le> 100"
      using a(2) by (simp add: h)
    have z: "observers s n = None \<longrightarrow> emit E now n v s = (None, add_to_history now n v s)"
      by (simp add: emit_def Let_def add_to_history_def)
    from h l z show "event_history (snd (emit E now n v s)) =
        drop (Suc (length (event_history s)) - 100) (event_history s @ [event_of (now, n, v)]) \<and>
      length (event_history (snd (emit E now n v s))) \<le> 100 \<and>
      (observers s n = None \<longrightarrow> emit E now n v s = (None, add_to_history now n v s))"
      by blast
  qed
  have gone: "101 \<le> length es \<longrightarrow>
      mset (get_event_history None None (emit_all E es ?s0)) =
        mset (drop (length es - 100) (map event_of es)) \<and>
      (event_of (hd es) \<notin> set (map event_of (tl es)) \<longrightarrow>
         event_of (hd es) \<notin> set (get_event_history None None (emit_all E es ?s0)))"
  proof (intro impI conjI)
    assume n: "101 \<le> length es"
    show m: "mset (get_event_history None None (emit_all E es ?s0)) =
        mset (drop (length es - 100) (map event_of es))"
      by (simp add: get_all_mset all)
    assume d: "event_of (hd es) \<notin> set (map event_of (tl es))"
    from n obtain c cs where es: "es = c # cs" by (cases es) auto
    with n have "length es - 100 = Suc (length cs - 100)" by simp
    then have "drop (length es - 100) (map event_of es) =
        drop (length cs - 100) (map event_of cs)"
      by (simp add: es)
    then have "set (drop (length es - 100) (map event_of es)) \<subseteq> set (map event_of (tl es))"
      using set_drop_subset[of "length cs - 100" "map event_of cs"] by (simp add: es)
    moreover have "set (get_event_history None None (emit_all E es ?s0)) =
        set (drop (length es - 100) (map event_of es))"
      using m by (metis set_mset_mset)
    ultimately show "event_of (hd es) \<notin> set (get_event_history None None (emit_all E es ?s0))"
      using d by blast
  qed
  from len all one gone show ?thesis by blast
qed

theorem emit_history_capacity_witness:
  "length (event_history (emit_all quiet_env many_emissions (ReactiveUI_init ()))) = 100 \<and>
   event_of (0, ''tick'', PyNone) \<notin>
     set (get_event_history None None (emit_all quiet_env many_emissions (ReactiveUI_init ()))) \<and>
   event_history (snd (emit quiet_env 0 ''tick'' (PyNone :: nat pyval) (ReactiveUI_init ()))) =
     [event_of (0, ''tick'', PyNone)] \<and>
   emit quiet_env 0 ''tick'' (PyNone :: nat pyval) (ReactiveUI_init ()) =
     (None, add_to_history 0 ''tick'' PyNone (ReactiveUI_init ()))"
proof -
  have es: "many_emissions =
      (0, ''tick'', PyNone) # map (\<lambda>i. (int i, ''tick'', PyNone)) [1..<101]"
    unfolding many_emissions_def by (subst upt_rec) simp
  have h1: "101 \<le> length many_emissions" by (simp add: many_emissions_def)
  have h2: "event_of (hd many_emissions) \<notin> set (map event_of (tl many_emissions))"
    unfolding es by (auto simp: event_of_def)
  have h3: "max_history (ReactiveUI_init () :: (nat, unit) reactive_ui) = 100 \<and>
      length (event_history (ReactiveUI_init () :: (nat, unit) reactive_ui)) \<le> 100"
    by (simp add: init_fields)
  have h4: "observers (ReactiveUI_init () :: (nat, unit) reactive_ui) ''tick'' = None"
    by (simp add: init_fields)
  have hd: "hd many_emissions = (0, ''tick'', PyNone)" by (simp add: es)
  note T = emit_history_capacity [where E = quiet_env and es = many_emissions and w = "()"
      and s = "ReactiveUI_init () :: (nat, unit) reactive_ui" and now = 0 and n = "''tick''"
      and v = PyNone]
  have c1: "length (event_history (emit_all quiet_env many_emissions (ReactiveUI_init ())))
      = min (length many_emissions) 100"
    using T by blast
  have c2: "event_of (hd many_emissions) \<notin>
      set (get_event_history None None (emit_all quiet_env many_emissions (ReactiveUI_init ())))"
    using T h1 h2 by blast
  have c3: "event_history (snd (emit quiet_env 0 ''tick'' (PyNone :: nat pyval)
        (ReactiveUI_init ()))) =
      drop (Suc (length (event_history (ReactiveUI_init () :: (nat, unit) reactive_ui))) - 100)
        (event_history (ReactiveUI_init () :: (nat, unit) reactive_ui)
           @ [event_of (0, ''tick'', PyNone)])"
    using T h3 by blast
  have c4: "emit quiet_env 0 ''tick'' (PyNone :: nat pyval) (ReactiveUI_init ()) =
      (None, add_to_history 0 ''tick'' PyNone (ReactiveUI_init ()))"
    using T h3 h4 by blast
  have l: "min (length many_emissions) 100 = 100" by (simp add: many_emissions_def)
  from c1 c2 c3 c4 show ?thesis
    unfolding l hd by (simp only: init_fields) simp
qed







text \<open>
  C9. \<open>unbind_element\<close> removes the element's entry from the table of bound elements
  and changes nothing else: the observers, their counts, the state and the history are as
  before. The function that \<open>bind_element\<close> subscribed to \<open>state_changed_<key>\<close> for
  the element is still subscribed after the element is unbound.
\<close>

theorem unbind_element_frame:
  "unbind_element element_id s = s\<lparr>ui_elements := (ui_elements s)(element_id := None)\<rparr> \<and>
   observers (unbind_element element_id s) = observers s \<and>
   state (unbind_element element_id s) = state s \<and>
   event_history (unbind_element element_id s) = event_history s \<and>
   get_observers_count event_name (unbind_element element_id s) =
     get_observers_count event_name s \<and>
   ui_elements (snd (bind_element E element_id state_key cb s)) element_id
     = Some (state_key, cb) \<and>
   Bound_updater (next_function s) element_id \<in>
     set (case observers
                 (unbind_element element_id (snd (bind_element E element_id state_key cb s)))
                 (''state_changed_'' @ state_key) of None \<Rightarrow> [] | Some l \<Rightarrow> l)"
proof -
  define n1 where "n1 = ''state_changed_'' @ state_key"
  have whole: "unbind_element element_id s =
      s\<lparr>ui_elements := (ui_elements s)(element_id := None)\<rparr>"
    for s :: "('a, 'b) reactive_ui"
  proof (cases "ui_elements s element_id")
    case None
    then have "(ui_elements s)(element_id := None) = ui_elements s" by auto
    with None show ?thesis by (simp add: unbind_element_def)
  next
    case (Some a)
    then show ?thesis by (simp add: unbind_element_def split: prod.splits)
  qed
  have counts: "get_observers_count event_name (unbind_element element_id s) =
      get_observers_count event_name s"
    unfolding whole by (simp add: get_observers_count_def split: option.splits)
  have frame: "observers (unbind_element element_id s) = observers s \<and>
      state (unbind_element element_id s) = state s \<and>
      event_history (unbind_element element_id s) = event_history s"
    unfolding whole by simp
  let ?s2 = "subscribe n1 (Bound_updater (next_function s) element_id)
      (s\<lparr>ui_elements := (ui_elements s)(element_id \<mapsto> (state_key, cb)),
         next_function := Suc (next_function s)\<rparr>)"
  have in2: "Bound_updater (next_function s) element_id \<in>
      set (case observers ?s2 n1 of None \<Rightarrow> [] | Some l \<Rightarrow> l)"
    by (simp add: subscribe_def Let_def)
  have ui2: "ui_elements ?s2 element_id = Some (state_key, cb)"
    by (simp add: subscribe_frame)
  have b: "snd (bind_element E element_id state_key cb s) = ?s2 \<or>
      snd (bind_element E element_id state_key cb s) =
        snd (try_callback E cb (get_state state_key PyNone ?s2) ?s2)"
    by (simp add: bind_element_def Let_def n1_def)
  have ui: "ui_elements (snd (bind_element E element_id state_key cb s)) element_id
      = Some (state_key, cb)"
    using b ui2 by (auto simp: try_callback_frame)
  have inb: "Bound_updater (next_function s) element_id \<in>
      set (case observers (snd (bind_element E element_id state_key cb s)) n1 of
             None \<Rightarrow> [] | Some l \<Rightarrow> l)"
    using b in2 try_callback_keeps_updater[OF in2] by auto
  have rest: "Bound_updater (next_function s) element_id \<in>
      set (case observers
                  (unbind_element element_id (snd (bind_element E element_id state_key cb s)))
                  n1 of None \<Rightarrow> [] | Some l \<Rightarrow> l)"
    using inb unfolding whole by simp
  from whole[of s] counts frame ui rest show ?thesis unfolding n1_def by blast
qed

theorem unbind_element_frame_witness:
  "observers (unbind_element ''e1''
      (snd (bind_element quiet_env ''e1'' ''k'' 5
              (ReactiveUI_init () :: (nat, unit) reactive_ui))))
     ''state_changed_k'' = Some [Bound_updater 0 ''e1''] \<and>
   ui_elements (unbind_element ''e1''
      (snd (bind_element quiet_env ''e1'' ''k'' 5
              (ReactiveUI_init () :: (nat, unit) reactive_ui))))
     ''e1'' = None \<and>
   ui_elements (snd (bind_element quiet_env ''e1'' ''k'' 5
      (ReactiveUI_init () :: (nat, unit) reactive_ui))) ''e1''
     = Some (''k'', 5)"
proof -
  let ?b = "snd (bind_element quiet_env ''e1'' ''k'' 5
      (ReactiveUI_init () :: (nat, unit) reactive_ui))"
  have o: "observers ?b ''state_changed_k'' = Some [Bound_updater 0 ''e1'']"
    by (simp add: bind_element_def subscribe_def get_state_def Let_def ReactiveUI_init_def)
  note at_b = unbind_element_frame [where element_id = "''e1''" and s = ?b and E = quiet_env
      and state_key = "''k''" and cb = 5]
  note at_init = unbind_element_frame [where element_id = "''e1''"
      and s = "ReactiveUI_init () :: (nat, unit) reactive_ui"
      and E = quiet_env and state_key = "''k''" and cb = 5]
  have f1: "observers (unbind_element ''e1'' ?b) = observers ?b"
    using at_b [THEN conjunct2, THEN conjunct1] .
  have f2: "unbind_element ''e1'' ?b = ?b\<lparr>ui_elements := (ui_elements ?b)(''e1'' := None)\<rparr>"
    using at_b [THEN conjunct1] .
  have f3: "ui_elements ?b ''e1'' = Some (''k'', 5)"
    using at_init [THEN conjunct2, THEN conjunct2, THEN conjunct2, THEN conjunct2,
        THEN conjunct2, THEN conjunct1] .
  have f4: "ui_elements (unbind_element ''e1'' ?b) ''e1'' = None"
    by (subst f2) simp
  show ?thesis by (simp add: f1 f3 f4 o)
qed

text \<open>
  C10. \<open>get_event_history\<close> tests its arguments for truth: a limit of 0 is no limit,
  and the empty event name is no filter. With limit 0 it returns every event that matches
  the name, and with the empty name every event of the history.
\<close>

theorem get_event_history_falsy_arguments:
  "get_event_history event_name (Some 0) s = get_event_history event_name None s \<and>
   get_event_history (Some []) limit s = get_event_history None limit s \<and>
   mset (get_event_history None (Some 0) s) = mset (event_history s) \<and>
   mset (get_event_history (Some []) None s) = mset (event_history s) \<and>
   mset (get_event_history (Some (c # cs)) (Some 0) s) =
     mset (filter (\<lambda>e. ev_event e = c # cs) (event_history s))"
  by (simp add: get_event_history_def)

theorem get_event_history_falsy_arguments_witness:
  "get_event_history (Some ''a'') (Some 0) two_events =
     [\<lparr>ev_timestamp = 1, ev_event = ''a'', ev_data = PyNone\<rparr>] \<and>
   get_event_history (Some []) (Some 1) two_events =
     [\<lparr>ev_timestamp = 2, ev_event = ''b'', ev_data = PyNone\<rparr>] \<and>
   mset (get_event_history (Some []) None two_events) = mset (event_history two_events)"
proof -
  have a: "get_event_history (Some ''a'') None two_events =
      [\<lparr>ev_timestamp = 1, ev_event = ''a'', ev_data = PyNone\<rparr>]"
    by (simp add: get_event_history_def two_events_def ReactiveUI_init_def)
  have b: "get_event_history None (Some 1) two_events =
      [\<lparr>ev_timestamp = 2, ev_event = ''b'', ev_data = PyNone\<rparr>]"
    by (simp add: get_event_history_def two_events_def ReactiveUI_init_def py_prefix_def)
  show ?thesis
    using get_event_history_falsy_arguments [where s = two_events
        and event_name = "Some ''a''" and limit = "Some 1"]
    by (simp add: a b)
qed

end
